theory Spec2Isabelle
  imports Complex_Main
begin

section \<open>USA tax calculator (2025): a model of script.js\<close>

text \<open>
  The script estimates US income tax from six entry fields and a filing status. Its
  computation is embedded function by function, with the names of the source.

  Numbers. A JavaScript number is an IEEE double. Amounts and rates are modelled as
  exact reals (the data model of the specification: monetary fields are real numbers),
  the rates \<open>0.10\<close>, \<open>0.15\<close>, ... as the exact decimal fractions; rounding and overflow
  of doubles are outside the model. The three values of a double that are not finite
  appear only where the source tests for them (the result of \<open>Number(v)\<close>) and where a
  table holds one (\<open>to: Infinity\<close>).
\<close>

subsection \<open>Numbers\<close>

text \<open>The result of the built-in conversion \<open>Number(v)\<close>.\<close>

datatype jsnum = Num real | PosInfinity | NegInfinity | NaN

text \<open>\<open>Number.isFinite(x)\<close>.\<close>

fun isFinite :: "jsnum \<Rightarrow> bool" where
  "isFinite (Num r) = True"
| "isFinite PosInfinity = False"
| "isFinite NegInfinity = False"
| "isFinite NaN = False"

text \<open>
  \<open>function n(v) { const x = Number(v); return Number.isFinite(x) ? x : 0; }\<close>
  The conversion \<open>Number\<close> belongs to the language, not to the script: it is a parameter
  of the model. \<open>Number.isFinite(x)\<close> holds in the first case, where \<open>n\<close> returns \<open>x\<close>, and
  fails in the other three, where it returns 0. The result of \<open>n\<close> is finite, hence a
  real.
\<close>

definition n :: "('v \<Rightarrow> jsnum) \<Rightarrow> 'v \<Rightarrow> real" where
  "n Number v =
     (let x = Number v
      in case x of Num r \<Rightarrow> r | PosInfinity \<Rightarrow> 0 | NegInfinity \<Rightarrow> 0 | NaN \<Rightarrow> 0)"

text \<open>\<open>Number(v)\<close> for a value \<open>v\<close> that is a number already: the value itself.\<close>

definition Number_of_number :: "jsnum \<Rightarrow> jsnum" where
  "Number_of_number v = v"

text \<open>\<open>function clampNonNeg(v) { return Math.max(v, 0); }\<close>\<close>

definition clampNonNeg :: "real \<Rightarrow> real" where
  "clampNonNeg v = max v 0"

text \<open>\<open>Math.round(x)\<close>: the nearest integer, a tie rounded up.\<close>

definition Math_round :: "real \<Rightarrow> int" where
  "Math_round x = \<lfloor>x + 1 / 2\<rfloor>"

text \<open>
  An integer as a template literal prints it: decimal digits, with a sign when negative
  (the exponent notation of integers from \<open>10^21\<close> on is not modelled; the labels
  printed here are percentages of table rates).
\<close>

fun digits :: "nat \<Rightarrow> string" where
  "digits k = (if k < 10 then [''0123456789'' ! k]
               else digits (k div 10) @ [''0123456789'' ! (k mod 10)])"

definition print_int :: "int \<Rightarrow> string" where
  "print_int i = (if i < 0 then ''-'' @ digits (nat (- i)) else digits (nat i))"

subsection \<open>The tables\<close>

text \<open>
  Each table is an object literal with the four keys \<open>single\<close>, \<open>mfs\<close>, \<open>mfj\<close>, \<open>hoh\<close>:
  a record with these fields. \<open>obj.single\<close> selects a field; \<open>obj[status]\<close> is
  \<open>lookup obj status\<close>, which is \<open>None\<close> (\<open>undefined\<close>) for any other key. The status is
  the value of the page's status control; keys that an object inherits from
  \<open>Object.prototype\<close> (such as \<open>constructor\<close>) are not modelled.
\<close>

record 'a by_status =
  single :: 'a
  mfj :: 'a
  hoh :: 'a
  mfs :: 'a

definition lookup :: "'a by_status \<Rightarrow> string \<Rightarrow> 'a option" where
  "lookup obj key =
     (if key = ''single'' then Some (single obj)
      else if key = ''mfj'' then Some (mfj obj)
      else if key = ''hoh'' then Some (hoh obj)
      else if key = ''mfs'' then Some (mfs obj)
      else None)"

definition STD_DEDUCTION_2025 :: "real by_status" where
  "STD_DEDUCTION_2025 = \<lparr>single = 15750, mfj = 31500, hoh = 23625, mfs = 15750\<rparr>"

text \<open>
  A rate band \<open>{ rate, from, to }\<close>; \<open>to\<close> is a number or \<open>Infinity\<close>. (\<open>from\<close> is a
  keyword of Isabelle, so the fields carry the prefix \<open>band_\<close>.)
\<close>

datatype limit = Upto real | Infinity

record band =
  band_rate :: real
  band_from :: real
  band_to :: limit

text \<open>The array literal at \<open>ORDINARY_BRACKETS_2025.single\<close>.\<close>

definition single_brackets :: "band list" where
  "single_brackets =
     [\<lparr>band_rate = 0.10, band_from = 0, band_to = Upto 11925\<rparr>,
      \<lparr>band_rate = 0.12, band_from = 11925, band_to = Upto 48475\<rparr>,
      \<lparr>band_rate = 0.22, band_from = 48475, band_to = Upto 103350\<rparr>,
      \<lparr>band_rate = 0.24, band_from = 103350, band_to = Upto 197300\<rparr>,
      \<lparr>band_rate = 0.32, band_from = 197300, band_to = Upto 250525\<rparr>,
      \<lparr>band_rate = 0.35, band_from = 250525, band_to = Upto 626350\<rparr>,
      \<lparr>band_rate = 0.37, band_from = 626350, band_to = Infinity\<rparr>]"

text \<open>The other three entries are \<open>null\<close>: \<open>None\<close>.\<close>

definition ORDINARY_BRACKETS_2025 :: "band list option by_status" where
  "ORDINARY_BRACKETS_2025 =
     \<lparr>single = Some single_brackets, mfj = None, hoh = None, mfs = None\<rparr>"

record ltcg_thresholds =
  r0_to :: real
  r15_to :: real

definition LTCG_2025 :: "ltcg_thresholds by_status" where
  "LTCG_2025 =
     \<lparr>single = \<lparr>r0_to = 48350, r15_to = 533400\<rparr>,
      mfj = \<lparr>r0_to = 96700, r15_to = 600050\<rparr>,
      hoh = \<lparr>r0_to = 64750, r15_to = 566700\<rparr>,
      mfs = \<lparr>r0_to = 48350, r15_to = 300000\<rparr>\<rparr>"

subsection \<open>The warning box\<close>

record warn_box =
  display :: string
  textContent :: string

text \<open>
  \<open>setWarn(msg)\<close> overwrites both properties of the one box: the state of the box after
  the call. The empty string is the only falsy message.
\<close>

definition setWarn :: "string \<Rightarrow> warn_box" where
  "setWarn msg =
     (if msg = '''' then \<lparr>display = ''none'', textContent = ''''\<rparr>
      else \<lparr>display = ''block'', textContent = msg\<rparr>)"

subsection \<open>Ordinary income tax\<close>

text \<open>
  Both tax functions return \<open>{ tax, rows }\<close>. A row of \<open>calcOrdinaryTax\<close> is
  \<open>{ label, taxedAmount, rate, tax }\<close>, a row of \<open>calcLtcgTax\<close> is \<open>{ rate, amount, tax }\<close>;
  the fields \<open>rate\<close> and \<open>tax\<close> of a row are \<open>row_rate\<close>, \<open>row_tax\<close> and \<open>tier_rate\<close>,
  \<open>tier_tax\<close> here.
\<close>

record 'r result =
  tax :: real
  rows :: "'r list"

record ordinary_row =
  label :: string
  taxedAmount :: real
  row_rate :: real
  row_tax :: real

text \<open>\<open>Math.min(taxableOrdinary, b.to)\<close>, for a finite first argument.\<close>

fun Math_min :: "real \<Rightarrow> limit \<Rightarrow> real" where
  "Math_min x (Upto t) = min x t"
| "Math_min x Infinity = x"

text \<open>
  The loop \<open>for (const b of brackets)\<close> over the rest of the bands, with the rows
  pushed and the tax added so far.
\<close>

fun for_brackets :: "real \<Rightarrow> band list \<Rightarrow> ordinary_row list \<Rightarrow> real \<Rightarrow> ordinary_row result" where
  "for_brackets taxableOrdinary [] rs t = \<lparr>tax = t, rows = rs\<rparr>"
| "for_brackets taxableOrdinary (b # bs) rs t =
     (let taxedAmount = clampNonNeg (Math_min taxableOrdinary (band_to b) - band_from b);
          bracketTax = taxedAmount * band_rate b
      in for_brackets taxableOrdinary bs
           (rs @ [\<lparr>label = print_int (Math_round (band_rate b * 100)) @ ''%'',
                    taxedAmount = taxedAmount,
                    row_rate = band_rate b,
                    row_tax = bracketTax\<rparr>])
           (t + bracketTax))"

text \<open>
  \<open>ORDINARY_BRACKETS_2025[status] || ORDINARY_BRACKETS_2025.single\<close>: the left operand
  when it is an array, the right one when it is \<open>null\<close> or \<open>undefined\<close>. Iterating over
  \<open>null\<close> would throw a \<open>TypeError\<close>.
\<close>

datatype error = TypeError

definition calcOrdinaryTax :: "real \<Rightarrow> string \<Rightarrow> error + ordinary_row result" where
  "calcOrdinaryTax taxableOrdinary status =
     (let brackets = (case lookup ORDINARY_BRACKETS_2025 status of
                        Some (Some bs) \<Rightarrow> Some bs
                      | Some None \<Rightarrow> single ORDINARY_BRACKETS_2025
                      | None \<Rightarrow> single ORDINARY_BRACKETS_2025)
      in case brackets of
           None \<Rightarrow> Inl TypeError
         | Some bs \<Rightarrow> Inr (for_brackets taxableOrdinary bs [] 0))"

subsection \<open>Long-term capital gains tax\<close>

record ltcg_row =
  tier_rate :: real
  amount :: real
  tier_tax :: real

text \<open>
  Lines 83 to 106 of \<open>calcLtcgTax\<close>, for the thresholds \<open>t\<close> that line 82 has looked up.
\<close>

definition calcLtcgTax_with :: "ltcg_thresholds \<Rightarrow> real \<Rightarrow> real \<Rightarrow> ltcg_row result" where
  "calcLtcgTax_with t totalTaxableIncome ltcg =
     (let ordinaryTaxable = totalTaxableIncome - ltcg;
          room0 = max (r0_to t - ordinaryTaxable) 0;
          taxedAt0 = min ltcg room0;
          remainingAfter0 = ltcg - taxedAt0;
          start15 = max ordinaryTaxable (r0_to t);
          room15 = max (r15_to t - start15) 0;
          taxedAt15 = min remainingAfter0 room15;
          taxedAt20 = max (remainingAfter0 - taxedAt15) 0
      in \<lparr>tax = (taxedAt15 * 0.15) + (taxedAt20 * 0.20),
          rows = [\<lparr>tier_rate = 0.00, amount = taxedAt0, tier_tax = 0\<rparr>,
                  \<lparr>tier_rate = 0.15, amount = taxedAt15, tier_tax = taxedAt15 * 0.15\<rparr>,
                  \<lparr>tier_rate = 0.20, amount = taxedAt20, tier_tax = taxedAt20 * 0.20\<rparr>]\<rparr>)"

text \<open>\<open>const t = LTCG_2025[status] || LTCG_2025.single;\<close> and the rest.\<close>

definition calcLtcgTax :: "real \<Rightarrow> real \<Rightarrow> string \<Rightarrow> ltcg_row result" where
  "calcLtcgTax totalTaxableIncome ltcg status =
     (let t = (case lookup LTCG_2025 status of Some t \<Rightarrow> t | None \<Rightarrow> single LTCG_2025)
      in calcLtcgTax_with t totalTaxableIncome ltcg)"

subsection \<open>The calculation\<close>

text \<open>
  What \<open>calculate\<close> reads from the page: the value of the status control and of the six
  entry fields (\<open>document.getElementById('gross').value\<close>, ...).
\<close>

record 'v page =
  el_status :: string
  el_gross :: 'v
  el_withheld :: 'v
  el_k401 :: 'v
  el_otherDed :: 'v
  el_stcg :: 'v
  el_ltcg :: 'v

text \<open>
  What \<open>calculate\<close> computes: its local variables at the end of the call, and the state
  it leaves on the page. The page shows \<open>deductionVal\<close> in the deduction field, the
  amounts \<open>adjustedW2\<close>, \<open>totalIncome\<close>, \<open>taxableIncome\<close>, \<open>totalTax\<close> and \<open>refund\<close>
  formatted as currency, and the rows of \<open>ordinary\<close> and \<open>capgains\<close> as tables; the
  formatter \<open>Intl.NumberFormat\<close> is not modelled.
\<close>

record calculation =
  deductionVal :: real
  gross :: real
  withheld :: real
  k401 :: real
  otherDed :: real
  stcg :: real
  ltcg :: real
  adjustedW2 :: real
  totalIncome :: real
  taxableIncome :: real
  taxableOrdinary :: real
  ordinary :: "ordinary_row result"
  capgains :: "ltcg_row result"
  totalTax :: real
  refund :: real
  refundHint :: string
  refundColor :: string
  warnBox :: warn_box

definition deductions_warning :: string where
  "deductions_warning =
     ''Your deductions (401k + other) are greater than your gross salary. Check inputs.''"

definition fallback_note :: string where
  "fallback_note =
     ''Note: Ordinary income brackets currently use Single brackets as a fallback. Standard deduction and LTCG thresholds use your selected status. If you want full accuracy for MFJ/HOH/MFS, add those bracket tables.''"

definition calculate :: "('v \<Rightarrow> jsnum) \<Rightarrow> 'v page \<Rightarrow> error + calculation" where
  "calculate Number p =
     (let status = el_status p;
          deductionVal = (case lookup STD_DEDUCTION_2025 status of
                            Some d \<Rightarrow> d | None \<Rightarrow> single STD_DEDUCTION_2025);
          gross = n Number (el_gross p);
          withheld = n Number (el_withheld p);
          k401 = n Number (el_k401 p);
          otherDed = n Number (el_otherDed p);
          stcg = n Number (el_stcg p);
          ltcg = n Number (el_ltcg p);
          adjustedW2 = gross - k401 - otherDed;
          box = setWarn '''';
          (box, adjustedW2) =
             (if adjustedW2 < 0 then (setWarn deductions_warning, 0) else (box, adjustedW2));
          totalIncome = adjustedW2 + stcg + ltcg;
          taxableIncome = clampNonNeg (totalIncome - deductionVal);
          taxableOrdinary = clampNonNeg (taxableIncome - ltcg)
      in case calcOrdinaryTax taxableOrdinary status of
           Inl e \<Rightarrow> Inl e
         | Inr r \<Rightarrow>
             (let ordinary = r;
                  capgains = calcLtcgTax taxableIncome ltcg status;
                  totalTax = tax ordinary + tax capgains;
                  refund = withheld - totalTax;
                  (hint, color) =
                     (if refund \<ge> 0 then (''Refund (you overpaid withholding).'', ''var(--good)'')
                      else (''Amount due (you underpaid withholding).'', ''var(--bad)''));
                  box = (if status \<noteq> ''single'' then setWarn fallback_note else box)
              in Inr \<lparr>deductionVal = deductionVal, gross = gross, withheld = withheld,
                      k401 = k401, otherDed = otherDed, stcg = stcg, ltcg = ltcg,
                      adjustedW2 = adjustedW2, totalIncome = totalIncome,
                      taxableIncome = taxableIncome, taxableOrdinary = taxableOrdinary,
                      ordinary = ordinary, capgains = capgains, totalTax = totalTax,
                      refund = refund, refundHint = hint, refundColor = color,
                      warnBox = box\<rparr>))"

section \<open>Properties\<close>

subsection \<open>Auxiliary facts\<close>

text \<open>
  Every status selects the single table: its own entry, a \<open>null\<close> entry replaced by it, or
  an unknown key replaced by it. In particular \<open>calcOrdinaryTax\<close> never throws.
\<close>

lemma calcOrdinaryTax_single:
  "calcOrdinaryTax x status = Inr (for_brackets x single_brackets [] 0)"
  by (simp add: calcOrdinaryTax_def lookup_def ORDINARY_BRACKETS_2025_def)

text \<open>The loop, in closed form: the total and the rows it returns.\<close>

lemma for_brackets_tax:
  "tax (for_brackets x bs rs t) =
     t + sum_list (map (\<lambda>b. max 0 (Math_min x (band_to b) - band_from b) * band_rate b) bs)"
  by (induction bs arbitrary: rs t) (simp_all add: Let_def clampNonNeg_def max.commute)

lemma for_brackets_rows:
  "rows (for_brackets x bs rs t) =
     rs @ map (\<lambda>b. \<lparr>label = print_int (Math_round (band_rate b * 100)) @ ''%'',
                      taxedAmount = max 0 (Math_min x (band_to b) - band_from b),
                      row_rate = band_rate b,
                      row_tax = max 0 (Math_min x (band_to b) - band_from b) * band_rate b\<rparr>) bs"
  by (induction bs arbitrary: rs t) (simp_all add: Let_def clampNonNeg_def max.commute)

text \<open>The amount in a band grows with the income; so does the sum over bands of rates \<open>\<ge> 0\<close>.\<close>

lemma band_amount_mono:
  "x1 \<le> x2 \<Longrightarrow> max 0 (Math_min x1 l - f) \<le> max 0 (Math_min x2 l - f)"
  by (cases l) auto

lemma sum_bands_mono:
  assumes "x1 \<le> x2" and "\<forall>b \<in> set bs. 0 \<le> band_rate b"
  shows "sum_list (map (\<lambda>b. max 0 (Math_min x1 (band_to b) - band_from b) * band_rate b) bs)
       \<le> sum_list (map (\<lambda>b. max 0 (Math_min x2 (band_to b) - band_from b) * band_rate b) bs)"
  using assms by (intro sum_list_mono mult_right_mono band_amount_mono) auto

lemma single_rates_nonneg: "\<forall>b \<in> set single_brackets. 0 \<le> band_rate b"
  by (simp add: single_brackets_def)

text \<open>The three tiers of the stacker, for any thresholds and any total income.\<close>

lemma ltcg_conservation:
  assumes "0 \<le> gains"
  shows "map tier_rate (rows (calcLtcgTax_with t income gains)) = [0, 0.15, 0.20] \<and>
         0 \<le> amount (rows (calcLtcgTax_with t income gains) ! 0) \<and>
         0 \<le> amount (rows (calcLtcgTax_with t income gains) ! 1) \<and>
         0 \<le> amount (rows (calcLtcgTax_with t income gains) ! 2) \<and>
         amount (rows (calcLtcgTax_with t income gains) ! 0) +
         amount (rows (calcLtcgTax_with t income gains) ! 1) +
         amount (rows (calcLtcgTax_with t income gains) ! 2) = gains"
  using assms by (simp add: calcLtcgTax_with_def Let_def)

text \<open>A text whose conversion is not finite is read as zero.\<close>

lemma n_upd:
  "\<not> isFinite (Number v) \<Longrightarrow> n (Number(v := Num 0)) w = n Number w"
  by (cases "Number v") (simp_all add: n_def)

text \<open>
  The result of \<open>calculate\<close>, field by field. The two conditional assignments of pairs
  are first written as conditionals of the components.
\<close>

lemma case_prod_if:
  "(case (if b then (x1, y1) else (x2, y2)) of (x, y) \<Rightarrow> f x y) =
   f (if b then x1 else x2) (if b then y1 else y2)"
  by simp

lemma clamp_if: "(if a < 0 then 0 else a) = max (a::real) 0"
  by (simp add: max_def)

lemma calculate_cases:
  obtains c where
    "calculate Number p = Inr c"
    "deductionVal c = (case lookup STD_DEDUCTION_2025 (el_status p) of
                         Some d \<Rightarrow> d | None \<Rightarrow> single STD_DEDUCTION_2025)"
    "gross c = n Number (el_gross p)"
    "withheld c = n Number (el_withheld p)"
    "k401 c = n Number (el_k401 p)"
    "otherDed c = n Number (el_otherDed p)"
    "stcg c = n Number (el_stcg p)"
    "ltcg c = n Number (el_ltcg p)"
    "adjustedW2 c = max (gross c - k401 c - otherDed c) 0"
    "totalIncome c = adjustedW2 c + stcg c + ltcg c"
    "taxableIncome c = max (totalIncome c - deductionVal c) 0"
    "taxableOrdinary c = max (taxableIncome c - ltcg c) 0"
    "calcOrdinaryTax (taxableOrdinary c) (el_status p) = Inr (ordinary c)"
    "capgains c = calcLtcgTax (taxableIncome c) (ltcg c) (el_status p)"
    "totalTax c = tax (ordinary c) + tax (capgains c)"
    "refund c = withheld c - totalTax c"
    "warnBox c =
       (if el_status p \<noteq> ''single'' then setWarn fallback_note
        else if gross c - k401 c - otherDed c < 0 then setWarn deductions_warning
        else setWarn '''')"
proof -
  define D where "D = (case lookup STD_DEDUCTION_2025 (el_status p) of
                         Some d \<Rightarrow> d | None \<Rightarrow> single STD_DEDUCTION_2025)"
  define G where "G = n Number (el_gross p)"
  define W where "W = n Number (el_withheld p)"
  define K where "K = n Number (el_k401 p)"
  define Od where "Od = n Number (el_otherDed p)"
  define S where "S = n Number (el_stcg p)"
  define L where "L = n Number (el_ltcg p)"
  define A where "A = max (G - K - Od) 0"
  define X where "X = max (A + S + L - D) 0"
  define Z where "Z = max (X - L) 0"
  define oy where "oy = for_brackets Z single_brackets [] 0"
  define cg where "cg = calcLtcgTax X L (el_status p)"
  define R where "R = W - (tax oy + tax cg)"
  define c where "c =
    \<lparr>deductionVal = D, gross = G, withheld = W, k401 = K, otherDed = Od, stcg = S, ltcg = L,
     adjustedW2 = A, totalIncome = A + S + L, taxableIncome = X, taxableOrdinary = Z,
     ordinary = oy, capgains = cg, totalTax = tax oy + tax cg, refund = R,
     refundHint = (if 0 \<le> R then ''Refund (you overpaid withholding).''
                   else ''Amount due (you underpaid withholding).''),
     refundColor = (if 0 \<le> R then ''var(--good)'' else ''var(--bad)''),
     warnBox = (if el_status p \<noteq> ''single'' then setWarn fallback_note
                else if G - K - Od < 0 then setWarn deductions_warning else setWarn '''')\<rparr>"
  have eq: "calculate Number p = Inr c"
    unfolding calculate_def calcOrdinaryTax_single Let_def case_prod_if sum.case clamp_if
      clampNonNeg_def
    unfolding c_def R_def cg_def oy_def Z_def X_def A_def L_def S_def Od_def K_def W_def G_def
      D_def
    by (simp only: if_distrib[of Inr] refl)
  show thesis
  proof (rule that[of c])
    show "calculate Number p = Inr c" by (rule eq)
    show "calcOrdinaryTax (taxableOrdinary c) (el_status p) = Inr (ordinary c)"
      by (simp add: c_def oy_def calcOrdinaryTax_single)
  qed (simp_all add: c_def A_def X_def Z_def R_def cg_def D_def G_def W_def K_def Od_def S_def L_def)
qed

text \<open>The same for a page whose six entries convert to the finite numbers \<open>g\<close>, \<open>w\<close>, ...\<close>

lemma calculate_numbers:
  obtains c where
    "calculate Number_of_number
       \<lparr>el_status = s, el_gross = Num g, el_withheld = Num w, el_k401 = Num k,
        el_otherDed = Num d, el_stcg = Num st, el_ltcg = Num l\<rparr> = Inr c"
    "deductionVal c = (case lookup STD_DEDUCTION_2025 s of
                         Some d \<Rightarrow> d | None \<Rightarrow> single STD_DEDUCTION_2025)"
    "gross c = g" "withheld c = w" "k401 c = k" "otherDed c = d" "stcg c = st" "ltcg c = l"
    "adjustedW2 c = max (g - k - d) 0"
    "totalIncome c = adjustedW2 c + st + l"
    "taxableIncome c = max (totalIncome c - deductionVal c) 0"
    "taxableOrdinary c = max (taxableIncome c - l) 0"
    "ordinary c = for_brackets (taxableOrdinary c) single_brackets [] 0"
    "capgains c = calcLtcgTax (taxableIncome c) l s"
    "totalTax c = tax (ordinary c) + tax (capgains c)"
    "refund c = w - totalTax c"
    "warnBox c =
       (if s \<noteq> ''single'' then setWarn fallback_note
        else if g - k - d < 0 then setWarn deductions_warning
        else setWarn '''')"
proof -
  let ?p = "\<lparr>el_status = s, el_gross = Num g, el_withheld = Num w, el_k401 = Num k,
        el_otherDed = Num d, el_stcg = Num st, el_ltcg = Num l\<rparr>"
  have num: "n Number_of_number (Num r) = r" for r
    by (simp add: n_def Number_of_number_def)
  have st: "el_status ?p = s" by simp
  obtain c where c: "calculate Number_of_number ?p = Inr c"
    and f1: "deductionVal c = (case lookup STD_DEDUCTION_2025 (el_status ?p) of
                         Some d \<Rightarrow> d | None \<Rightarrow> single STD_DEDUCTION_2025)"
    and f2: "gross c = n Number_of_number (el_gross ?p)"
    and f3: "withheld c = n Number_of_number (el_withheld ?p)"
    and f4: "k401 c = n Number_of_number (el_k401 ?p)"
    and f5: "otherDed c = n Number_of_number (el_otherDed ?p)"
    and f6: "stcg c = n Number_of_number (el_stcg ?p)"
    and f7: "ltcg c = n Number_of_number (el_ltcg ?p)"
    and f8: "adjustedW2 c = max (gross c - k401 c - otherDed c) 0"
    and f9: "totalIncome c = adjustedW2 c + stcg c + ltcg c"
    and f10: "taxableIncome c = max (totalIncome c - deductionVal c) 0"
    and f11: "taxableOrdinary c = max (taxableIncome c - ltcg c) 0"
    and f12: "calcOrdinaryTax (taxableOrdinary c) (el_status ?p) = Inr (ordinary c)"
    and f13: "capgains c = calcLtcgTax (taxableIncome c) (ltcg c) (el_status ?p)"
    and f14: "totalTax c = tax (ordinary c) + tax (capgains c)"
    and f15: "refund c = withheld c - totalTax c"
    and f16: "warnBox c =
       (if el_status ?p \<noteq> ''single'' then setWarn fallback_note
        else if gross c - k401 c - otherDed c < 0 then setWarn deductions_warning
        else setWarn '''')"
    by (rule calculate_cases)
  have g: "gross c = g" and w: "withheld c = w" and k: "k401 c = k" and d: "otherDed c = d"
    and s: "stcg c = st" and l: "ltcg c = l"
    by (simp_all add: f2 f3 f4 f5 f6 f7 num)
  show thesis
  proof (rule that[of c])
    show "calculate Number_of_number ?p = Inr c" by (rule c)
    show "deductionVal c = (case lookup STD_DEDUCTION_2025 s of
                         Some d \<Rightarrow> d | None \<Rightarrow> single STD_DEDUCTION_2025)"
      using f1 unfolding st .
    show "gross c = g" "withheld c = w" "k401 c = k" "otherDed c = d" "stcg c = st" "ltcg c = l"
      by (rule g w k d s l)+
    show "adjustedW2 c = max (g - k - d) 0"
      using f8 unfolding g k d .
    show "totalIncome c = adjustedW2 c + st + l"
      using f9 unfolding s l .
    show "taxableIncome c = max (totalIncome c - deductionVal c) 0"
      by (rule f10)
    show "taxableOrdinary c = max (taxableIncome c - l) 0"
      using f11 unfolding l .
    show "ordinary c = for_brackets (taxableOrdinary c) single_brackets [] 0"
      using f12 unfolding calcOrdinaryTax_single by simp
    show "capgains c = calcLtcgTax (taxableIncome c) l s"
      using f13 unfolding l st .
    show "totalTax c = tax (ordinary c) + tax (capgains c)"
      by (rule f14)
    show "refund c = w - totalTax c"
      using f15 unfolding w .
    show "warnBox c =
       (if s \<noteq> ''single'' then setWarn fallback_note
        else if g - k - d < 0 then setWarn deductions_warning
        else setWarn '''')"
      using f16 unfolding g k d st .
  qed
qed

text \<open>The rows and the total for a taxable ordinary income of 64250.\<close>

lemma for_brackets_64250:
  "for_brackets 64250 single_brackets [] 0 =
     \<lparr>tax = 9049,
      rows = [\<lparr>label = ''10%'', taxedAmount = 11925, row_rate = 0.10, row_tax = 1192.5\<rparr>,
              \<lparr>label = ''12%'', taxedAmount = 36550, row_rate = 0.12, row_tax = 4386\<rparr>,
              \<lparr>label = ''22%'', taxedAmount = 15775, row_rate = 0.22, row_tax = 3470.5\<rparr>,
              \<lparr>label = ''24%'', taxedAmount = 0, row_rate = 0.24, row_tax = 0\<rparr>,
              \<lparr>label = ''32%'', taxedAmount = 0, row_rate = 0.32, row_tax = 0\<rparr>,
              \<lparr>label = ''35%'', taxedAmount = 0, row_rate = 0.35, row_tax = 0\<rparr>,
              \<lparr>label = ''37%'', taxedAmount = 0, row_rate = 0.37, row_tax = 0\<rparr>]\<rparr>"
  by (simp add: single_brackets_def clampNonNeg_def Math_round_def print_int_def)

subsection \<open>The ordinary bracket apportioner\<close>

text \<open>
  C1. For every taxable ordinary income \<open>x \<ge> 0\<close>, \<open>calcOrdinaryTax\<close> with the single
  status returns normally, with one row per band of the single table, in the order of
  the table (also for the bands above \<open>x\<close>, whose amount is zero): the row of a band
  carries the band's rate, the taxed amount \<open>max(0, min(x, band.to) - band.from)\<close> and the
  tax, that amount times the band's rate; the total tax is the sum of the taxes of the
  rows.
\<close>

theorem calcOrdinaryTax_single_rows:
  assumes "0 \<le> x"
  shows "case calcOrdinaryTax x ''single'' of
           Inl e \<Rightarrow> False
         | Inr r \<Rightarrow>
             map row_rate (rows r) = map band_rate single_brackets \<and>
             map taxedAmount (rows r) =
               map (\<lambda>b. max 0 (Math_min x (band_to b) - band_from b)) single_brackets \<and>
             map row_tax (rows r) =
               map (\<lambda>b. max 0 (Math_min x (band_to b) - band_from b) * band_rate b)
                 single_brackets \<and>
             tax r = sum_list (map row_tax (rows r))"
  by (simp add: calcOrdinaryTax_single for_brackets_rows for_brackets_tax o_def)

theorem calcOrdinaryTax_single_rows_witness:
  "(0::real) \<le> 64250 \<and>
   (case calcOrdinaryTax 64250 ''single'' of
      Inl e \<Rightarrow> False
    | Inr r \<Rightarrow>
        map row_rate (rows r) = map band_rate single_brackets \<and>
        map taxedAmount (rows r) =
          map (\<lambda>b. max 0 (Math_min 64250 (band_to b) - band_from b)) single_brackets \<and>
        map row_tax (rows r) =
          map (\<lambda>b. max 0 (Math_min 64250 (band_to b) - band_from b) * band_rate b)
            single_brackets \<and>
        tax r = sum_list (map row_tax (rows r)))"
  using calcOrdinaryTax_single_rows [of 64250] by simp

text \<open>
  C6. The total tax is monotone in the income: for \<open>0 \<le> x1 \<le> x2\<close> and the same status
  (hence the same table), the total of \<open>calcOrdinaryTax\<close> at \<open>x1\<close> is at most its total
  at \<open>x2\<close>.
\<close>

theorem calcOrdinaryTax_monotone:
  assumes "0 \<le> x1" and "x1 \<le> x2"
  shows "case (calcOrdinaryTax x1 status, calcOrdinaryTax x2 status) of
           (Inr r1, Inr r2) \<Rightarrow> tax r1 \<le> tax r2
         | _ \<Rightarrow> False"
  using sum_bands_mono [OF assms(2) single_rates_nonneg]
  by (simp add: calcOrdinaryTax_single for_brackets_tax)

theorem calcOrdinaryTax_monotone_witness:
  "(0::real) \<le> 50000 \<and> (50000::real) \<le> 64250 \<and>
   (case (calcOrdinaryTax 50000 ''hoh'', calcOrdinaryTax 64250 ''hoh'') of
      (Inr r1, Inr r2) \<Rightarrow> tax r1 \<le> tax r2
    | _ \<Rightarrow> False)"
  using calcOrdinaryTax_monotone [of 50000 64250 "''hoh''"] by simp

text \<open>
  C8. The statuses whose bracket table is not populated (\<open>mfj\<close>, \<open>hoh\<close>, \<open>mfs\<close>) get the
  result of the single status: for every income, \<open>calcOrdinaryTax\<close> returns for each of
  them exactly what it returns for \<open>single\<close>.
\<close>

theorem calcOrdinaryTax_fallback:
  "calcOrdinaryTax x ''mfj'' = calcOrdinaryTax x ''single'' \<and>
   calcOrdinaryTax x ''hoh'' = calcOrdinaryTax x ''single'' \<and>
   calcOrdinaryTax x ''mfs'' = calcOrdinaryTax x ''single''"
  by (simp add: calcOrdinaryTax_def lookup_def ORDINARY_BRACKETS_2025_def)

subsection \<open>The capital gains stacker\<close>

text \<open>
  C2. For every valid input of the stacker, that is a total taxable income \<open>\<ge> 0\<close>, a
  gain between 0 and that income, and thresholds with \<open>r0_to \<le> r15_to\<close>, the rows are
  the three tiers at the rates 0, 0.15 and 0.20, their amounts \<open>taxedAt0\<close>, \<open>taxedAt15\<close>
  and \<open>taxedAt20\<close> are each \<open>\<ge> 0\<close>, and the amounts sum exactly to the gain.
  (\<open>calcLtcgTax\<close> is \<open>calcLtcgTax_with\<close> at the thresholds of the status.)
\<close>

theorem calcLtcgTax_with_conserves:
  assumes "0 \<le> income" and "0 \<le> gains" and "gains \<le> income" and "r0_to t \<le> r15_to t"
  shows "let r = calcLtcgTax_with t income gains
         in map tier_rate (rows r) = [0, 0.15, 0.20] \<and>
            0 \<le> amount (rows r ! 0) \<and> 0 \<le> amount (rows r ! 1) \<and> 0 \<le> amount (rows r ! 2) \<and>
            amount (rows r ! 0) + amount (rows r ! 1) + amount (rows r ! 2) = gains"
  unfolding Let_def using assms(2) by (rule ltcg_conservation)

theorem calcLtcgTax_with_conserves_witness:
  "(0::real) \<le> 600000 \<and> (0::real) \<le> 500000 \<and> (500000::real) \<le> 600000 \<and>
   r0_to \<lparr>r0_to = 48350, r15_to = 533400\<rparr> \<le> r15_to \<lparr>r0_to = 48350, r15_to = 533400\<rparr> \<and>
   (let r = calcLtcgTax_with \<lparr>r0_to = 48350, r15_to = 533400\<rparr> 600000 500000
    in map tier_rate (rows r) = [0, 0.15, 0.20] \<and>
       0 \<le> amount (rows r ! 0) \<and> 0 \<le> amount (rows r ! 1) \<and> 0 \<le> amount (rows r ! 2) \<and>
       amount (rows r ! 0) + amount (rows r ! 1) + amount (rows r ! 2) = 500000)"
  using calcLtcgTax_with_conserves [of 600000 500000 "\<lparr>r0_to = 48350, r15_to = 533400\<rparr>"]
  by simp

text \<open>
  C5. End-to-end example 3: for a total taxable income of 600000 of which 500000 are
  long-term gains, with the thresholds of the single status (48350, 533400),
  \<open>calcLtcgTax\<close> returns the amounts 0, 433400 and 66600 at the rates 0, 0.15 and 0.20, and
  the total tax 78330.
\<close>

theorem calcLtcgTax_example3:
  "calcLtcgTax 600000 500000 ''single'' =
     \<lparr>tax = 78330,
      rows = [\<lparr>tier_rate = 0, amount = 0, tier_tax = 0\<rparr>,
              \<lparr>tier_rate = 0.15, amount = 433400, tier_tax = 65010\<rparr>,
              \<lparr>tier_rate = 0.20, amount = 66600, tier_tax = 13320\<rparr>]\<rparr>"
  by (simp add: calcLtcgTax_def calcLtcgTax_with_def lookup_def LTCG_2025_def)

text \<open>
  C9. The conservation needs no bound of the gain by the income: for every gain \<open>\<ge> 0\<close>,
  every real total taxable income (also one below the gain, where \<open>ordinaryTaxable\<close> is
  negative) and every status, the three amounts returned by \<open>calcLtcgTax\<close> are each
  \<open>\<ge> 0\<close> and sum exactly to the gain. The function has no statement that can throw: it
  is total, with no error among its results.
\<close>

theorem calcLtcgTax_conserves:
  assumes "0 \<le> gains"
  shows "let r = calcLtcgTax income gains status
         in map tier_rate (rows r) = [0, 0.15, 0.20] \<and>
            0 \<le> amount (rows r ! 0) \<and> 0 \<le> amount (rows r ! 1) \<and> 0 \<le> amount (rows r ! 2) \<and>
            amount (rows r ! 0) + amount (rows r ! 1) + amount (rows r ! 2) = gains"
  unfolding calcLtcgTax_def Let_def using assms by (rule ltcg_conservation)

theorem calcLtcgTax_conserves_witness:
  "(0::real) \<le> 10000 \<and>
   (let r = calcLtcgTax 0 10000 ''mfj''
    in map tier_rate (rows r) = [0, 0.15, 0.20] \<and>
       0 \<le> amount (rows r ! 0) \<and> 0 \<le> amount (rows r ! 1) \<and> 0 \<le> amount (rows r ! 2) \<and>
       amount (rows r ! 0) + amount (rows r ! 1) + amount (rows r ! 2) = 10000)"
  using calcLtcgTax_conserves [of 10000 0 "''mfj''"] by simp

subsection \<open>Reading the entry fields\<close>

text \<open>
  C10. \<open>n\<close> makes the entries total: for every value \<open>v\<close> whose conversion \<open>Number(v)\<close> is
  \<open>NaN\<close> or infinite, \<open>n(v)\<close> is 0, and the whole calculation is the one obtained when
  such a text converts to 0. The results of \<open>n\<close> and of \<open>calculate\<close> are reals: no
  \<open>NaN\<close> is among them.
\<close>

theorem n_not_finite_is_zero:
  assumes "\<not> isFinite (Number v)"
  shows "n Number v = 0 \<and> calculate Number p = calculate (Number(v := Num 0)) p"
proof
  show "n Number v = 0"
    using assms by (cases "Number v") (simp_all add: n_def)
  show "calculate Number p = calculate (Number(v := Num 0)) p"
    unfolding calculate_def n_upd [of Number v, OF assms] ..
qed

theorem n_not_finite_is_zero_witness:
  "\<not> isFinite (Number_of_number NaN) \<and> n Number_of_number NaN = 0 \<and>
   calculate Number_of_number
     \<lparr>el_status = ''single'', el_gross = NaN, el_withheld = Num 9000, el_k401 = PosInfinity,
      el_otherDed = Num 0, el_stcg = Num 0, el_ltcg = Num 0\<rparr> =
   calculate (Number_of_number(NaN := Num 0))
     \<lparr>el_status = ''single'', el_gross = NaN, el_withheld = Num 9000, el_k401 = PosInfinity,
      el_otherDed = Num 0, el_stcg = Num 0, el_ltcg = Num 0\<rparr>"
  using n_not_finite_is_zero [of Number_of_number NaN] by (simp add: Number_of_number_def)

subsection \<open>The orchestration\<close>



text \<open>
  C4, as the code has it. The claim is that every negative entry is clamped to zero
  before the core computations; the code clamps no entry (see the counterexample below),
  it clamps the amounts it derives. What holds for every input: \<open>calculate\<close> returns
  normally; the six entries are used as \<open>n\<close> read them; \<open>adjustedW2\<close>, \<open>taxableIncome\<close> and
  \<open>taxableOrdinary\<close> are clamped at zero, so that \<open>calcOrdinaryTax\<close> receives an income
  \<open>\<ge> 0\<close> and \<open>calcLtcgTax\<close> a total taxable income \<open>\<ge> 0\<close>, with the long-term gain as
  entered; and for the single status the warning box ends with the advisory on
  deductions exactly when \<open>gross - k401 - otherDed\<close> was negative.
\<close>

theorem calculate_clamps_derived_amounts:
  "case calculate Number p of
     Inl e \<Rightarrow> False
   | Inr c \<Rightarrow>
       gross c = n Number (el_gross p) \<and> k401 c = n Number (el_k401 p) \<and>
       otherDed c = n Number (el_otherDed p) \<and> stcg c = n Number (el_stcg p) \<and>
       ltcg c = n Number (el_ltcg p) \<and> withheld c = n Number (el_withheld p) \<and>
       adjustedW2 c = max (gross c - k401 c - otherDed c) 0 \<and>
       taxableIncome c = max (adjustedW2 c + stcg c + ltcg c - deductionVal c) 0 \<and>
       taxableOrdinary c = max (taxableIncome c - ltcg c) 0 \<and>
       0 \<le> adjustedW2 c \<and> 0 \<le> taxableIncome c \<and> 0 \<le> taxableOrdinary c \<and>
       calcOrdinaryTax (taxableOrdinary c) (el_status p) = Inr (ordinary c) \<and>
       capgains c = calcLtcgTax (taxableIncome c) (ltcg c) (el_status p) \<and>
       (el_status p = ''single'' \<longrightarrow>
          (textContent (warnBox c) = deductions_warning) = (gross c - k401 c - otherDed c < 0))"
proof -
  obtain c where c: "calculate Number p = Inr c"
    and raw: "gross c = n Number (el_gross p)" "k401 c = n Number (el_k401 p)"
      "otherDed c = n Number (el_otherDed p)" "stcg c = n Number (el_stcg p)"
      "ltcg c = n Number (el_ltcg p)" "withheld c = n Number (el_withheld p)"
    and a: "adjustedW2 c = max (gross c - k401 c - otherDed c) 0"
    and tot: "totalIncome c = adjustedW2 c + stcg c + ltcg c"
    and ti: "taxableIncome c = max (totalIncome c - deductionVal c) 0"
    and tord: "taxableOrdinary c = max (taxableIncome c - ltcg c) 0"
    and ordy: "calcOrdinaryTax (taxableOrdinary c) (el_status p) = Inr (ordinary c)"
    and cg: "capgains c = calcLtcgTax (taxableIncome c) (ltcg c) (el_status p)"
    and box: "warnBox c =
       (if el_status p \<noteq> ''single'' then setWarn fallback_note
        else if gross c - k401 c - otherDed c < 0 then setWarn deductions_warning
        else setWarn '''')"
    by (rule calculate_cases)
  have nonneg: "0 \<le> adjustedW2 c" "0 \<le> taxableIncome c" "0 \<le> taxableOrdinary c"
    by (simp_all add: a ti tord)
  have ti': "taxableIncome c = max (adjustedW2 c + stcg c + ltcg c - deductionVal c) 0"
    by (simp add: ti tot)
  have warn: "el_status p = ''single'' \<longrightarrow>
          (textContent (warnBox c) = deductions_warning) = (gross c - k401 c - otherDed c < 0)"
    by (simp add: box setWarn_def deductions_warning_def)
  show ?thesis
    unfolding c sum.case using raw a ti' tord nonneg ordy cg warn by blast
qed

text \<open>
  A single filer with a gross salary of 1000, a retirement contribution of 2500 and
  short-term gains of 20000: the wage income \<open>1000 - 2500\<close> is negative and clamped, the
  taxable amounts are \<open>20000 - 15750 = 4250\<close>, and the box shows the advisory.
\<close>

theorem calculate_clamps_derived_amounts_witness:
  "el_status \<lparr>el_status = ''single'', el_gross = Num 1000, el_withheld = Num 0,
      el_k401 = Num 2500, el_otherDed = Num 0, el_stcg = Num 20000, el_ltcg = Num 0\<rparr> = ''single'' \<and>
   (case calculate Number_of_number
          \<lparr>el_status = ''single'', el_gross = Num 1000, el_withheld = Num 0,
           el_k401 = Num 2500, el_otherDed = Num 0, el_stcg = Num 20000, el_ltcg = Num 0\<rparr> of
     Inl e \<Rightarrow> False
   | Inr c \<Rightarrow>
       gross c - k401 c - otherDed c = - 1500 \<and> adjustedW2 c = 0 \<and>
       taxableIncome c = 4250 \<and> taxableOrdinary c = 4250 \<and>
       calcOrdinaryTax 4250 ''single'' = Inr (ordinary c) \<and>
       capgains c = calcLtcgTax 4250 0 ''single'' \<and>
       textContent (warnBox c) = deductions_warning)"
proof -
  let ?p = "\<lparr>el_status = ''single'', el_gross = Num 1000, el_withheld = Num 0,
           el_k401 = Num 2500, el_otherDed = Num 0, el_stcg = Num 20000, el_ltcg = Num 0\<rparr>"
  obtain c where c: "calculate Number_of_number ?p = Inr c"
    and d: "deductionVal c = (case lookup STD_DEDUCTION_2025 ''single'' of
                         Some d \<Rightarrow> d | None \<Rightarrow> single STD_DEDUCTION_2025)"
    and g: "gross c = 1000" and k: "k401 c = 2500" and od: "otherDed c = 0"
    and s: "stcg c = 20000" and l: "ltcg c = 0"
    by (rule calculate_numbers)
  have D: "deductionVal c = 15750"
    by (simp add: d lookup_def STD_DEDUCTION_2025_def)
  note q = calculate_clamps_derived_amounts [of Number_of_number ?p, unfolded c sum.case]
  have st: "el_status ?p = ''single''" by simp
  from q have a: "adjustedW2 c = max (gross c - k401 c - otherDed c) 0"
    and x: "taxableIncome c = max (adjustedW2 c + stcg c + ltcg c - deductionVal c) 0"
    and z: "taxableOrdinary c = max (taxableIncome c - ltcg c) 0"
    and oy: "calcOrdinaryTax (taxableOrdinary c) (el_status ?p) = Inr (ordinary c)"
    and cg: "capgains c = calcLtcgTax (taxableIncome c) (ltcg c) (el_status ?p)"
    and box: "el_status ?p = ''single'' \<longrightarrow>
          (textContent (warnBox c) = deductions_warning) = (gross c - k401 c - otherDed c < 0)"
    by blast+
  have R: "gross c - k401 c - otherDed c = - 1500" by (simp add: g k od)
  have A: "adjustedW2 c = 0" by (simp add: a R)
  have X: "taxableIncome c = 4250" by (simp add: x A s l D)
  have Z: "taxableOrdinary c = 4250" by (simp add: z X l)
  have OY: "calcOrdinaryTax 4250 ''single'' = Inr (ordinary c)"
    using oy unfolding Z st .
  have CG: "capgains c = calcLtcgTax 4250 0 ''single''"
    using cg unfolding X l st .
  have B: "textContent (warnBox c) = deductions_warning"
    using box st R by simp
  show ?thesis
    unfolding c sum.case using st R A X Z OY CG B by blast
qed

text \<open>
  The claim fails for a single filer who enters \<open>-5000\<close> as retirement contribution and
  \<open>-1000\<close> as long-term gain: neither is clamped. The contribution raises the wage income
  to 5000, and the stacker is called with the gain \<open>-1000\<close>, which it puts in the tier
  of rate 0.
\<close>

theorem calculate_clamps_derived_amounts_counterexample:
  "case calculate Number_of_number
          \<lparr>el_status = ''single'', el_gross = Num 0, el_withheld = Num 0,
           el_k401 = Num (- 5000), el_otherDed = Num 0, el_stcg = Num 0,
           el_ltcg = Num (- 1000)\<rparr> of
     Inl e \<Rightarrow> False
   | Inr c \<Rightarrow>
       k401 c = - 5000 \<and> adjustedW2 c = 5000 \<and> ltcg c = - 1000 \<and> ltcg c < 0 \<and>
       taxableIncome c = 0 \<and>
       capgains c = calcLtcgTax 0 (- 1000) ''single'' \<and>
       map amount (rows (capgains c)) = [- 1000, 0, 0]"
proof -
  obtain c where c: "calculate Number_of_number
          \<lparr>el_status = ''single'', el_gross = Num 0, el_withheld = Num 0,
           el_k401 = Num (- 5000), el_otherDed = Num 0, el_stcg = Num 0,
           el_ltcg = Num (- 1000)\<rparr> = Inr c"
    and d: "deductionVal c = (case lookup STD_DEDUCTION_2025 ''single'' of
                         Some d \<Rightarrow> d | None \<Rightarrow> single STD_DEDUCTION_2025)"
    and k: "k401 c = - 5000" and l: "ltcg c = - 1000"
    and a: "adjustedW2 c = max (0 - - 5000 - 0) 0"
    and t: "totalIncome c = adjustedW2 c + 0 + - 1000"
    and x: "taxableIncome c = max (totalIncome c - deductionVal c) 0"
    and cg: "capgains c = calcLtcgTax (taxableIncome c) (- 1000) ''single''"
    by (rule calculate_numbers)
  have D: "deductionVal c = 15750"
    by (simp add: d lookup_def STD_DEDUCTION_2025_def)
  have A: "adjustedW2 c = 5000" by (simp add: a)
  have T: "totalIncome c = 4000" by (simp add: t A)
  have X: "taxableIncome c = 0" by (simp add: x T D)
  have CG: "capgains c = calcLtcgTax 0 (- 1000) ''single''" by (simp add: cg X)
  have rows: "map amount (rows (calcLtcgTax 0 (- 1000) ''single'')) = [- 1000, 0, 0]"
    by (simp add: calcLtcgTax_def calcLtcgTax_with_def lookup_def LTCG_2025_def)
  show ?thesis
    by (simp add: c k l A X CG rows)
qed

text \<open>The calculation of end-to-end example 1, evaluated.\<close>

lemma calculate_example1:
  obtains c where
    "calculate Number_of_number
       \<lparr>el_status = ''single'', el_gross = Num 80000, el_withheld = Num 9000, el_k401 = Num 0,
        el_otherDed = Num 0, el_stcg = Num 0, el_ltcg = Num 0\<rparr> = Inr c"
    "deductionVal c = 15750" "withheld c = 9000" "adjustedW2 c = 80000"
    "totalIncome c = 80000" "taxableIncome c = 64250" "taxableOrdinary c = 64250"
    "ordinary c = for_brackets 64250 single_brackets [] 0"
    "tax (capgains c) = 0" "totalTax c = 9049" "refund c = - 49"
proof -
  obtain c where c: "calculate Number_of_number
          \<lparr>el_status = ''single'', el_gross = Num 80000, el_withheld = Num 9000, el_k401 = Num 0,
           el_otherDed = Num 0, el_stcg = Num 0, el_ltcg = Num 0\<rparr> = Inr c"
    and d: "deductionVal c = (case lookup STD_DEDUCTION_2025 ''single'' of
                         Some d \<Rightarrow> d | None \<Rightarrow> single STD_DEDUCTION_2025)"
    and w: "withheld c = 9000"
    and a: "adjustedW2 c = max (80000 - 0 - 0) 0"
    and t: "totalIncome c = adjustedW2 c + 0 + 0"
    and x: "taxableIncome c = max (totalIncome c - deductionVal c) 0"
    and z: "taxableOrdinary c = max (taxableIncome c - 0) 0"
    and oy: "ordinary c = for_brackets (taxableOrdinary c) single_brackets [] 0"
    and cg: "capgains c = calcLtcgTax (taxableIncome c) 0 ''single''"
    and tt: "totalTax c = tax (ordinary c) + tax (capgains c)"
    and r: "refund c = 9000 - totalTax c"
    by (rule calculate_numbers)
  have D: "deductionVal c = 15750"
    by (simp add: d lookup_def STD_DEDUCTION_2025_def)
  have A: "adjustedW2 c = 80000" by (simp add: a)
  have T: "totalIncome c = 80000" by (simp add: t A)
  have X: "taxableIncome c = 64250" by (simp add: x T D)
  have Z: "taxableOrdinary c = 64250" by (simp add: z X)
  have OY: "ordinary c = for_brackets 64250 single_brackets [] 0" by (simp add: oy Z)
  have CG: "tax (capgains c) = 0"
    by (simp add: cg X calcLtcgTax_def calcLtcgTax_with_def lookup_def LTCG_2025_def)
  have TT: "totalTax c = 9049" by (simp add: tt OY for_brackets_64250 CG)
  have R: "refund c = - 49" by (simp add: r TT)
  show thesis
    using c D w A T X Z OY CG TT R by (rule that)
qed

text \<open>
  C7, as the code has it. For the entries of end-to-end example 1 (single filer, gross
  80000, no deductions and no gains, 9000 withheld; the deduction of the single status is
  15750) \<open>calculate\<close> derives \<open>adjustedW2 = 80000\<close>, \<open>totalIncome = 80000\<close>,
  \<open>taxableIncome = 64250\<close> and \<open>taxableOrdinary = 64250\<close>; the ordinary tax is
  \<open>1192.5 + 4386 + 3470.5 = 9049\<close>, not about 9014.50; the refund is the amount withheld
  minus the total tax, \<open>9000 - 9049 = -49\<close>, an amount due.
\<close>

theorem calculate_example1_amounts:
  "case calculate Number_of_number
          \<lparr>el_status = ''single'', el_gross = Num 80000, el_withheld = Num 9000, el_k401 = Num 0,
           el_otherDed = Num 0, el_stcg = Num 0, el_ltcg = Num 0\<rparr> of
     Inl e \<Rightarrow> False
   | Inr c \<Rightarrow>
       deductionVal c = 15750 \<and> adjustedW2 c = 80000 \<and> totalIncome c = 80000 \<and>
       taxableIncome c = 64250 \<and> taxableOrdinary c = 64250 \<and>
       map taxedAmount (rows (ordinary c)) = [11925, 36550, 15775, 0, 0, 0, 0] \<and>
       map row_tax (rows (ordinary c)) = [1192.5, 4386, 3470.5, 0, 0, 0, 0] \<and>
       tax (ordinary c) = 9049 \<and> tax (capgains c) = 0 \<and> totalTax c = 9049 \<and>
       refund c = withheld c - totalTax c \<and> refund c = - 49"
proof -
  obtain c where c: "calculate Number_of_number
          \<lparr>el_status = ''single'', el_gross = Num 80000, el_withheld = Num 9000, el_k401 = Num 0,
           el_otherDed = Num 0, el_stcg = Num 0, el_ltcg = Num 0\<rparr> = Inr c"
    and f: "deductionVal c = 15750" "withheld c = 9000" "adjustedW2 c = 80000"
    "totalIncome c = 80000" "taxableIncome c = 64250" "taxableOrdinary c = 64250"
    "ordinary c = for_brackets 64250 single_brackets [] 0"
    "tax (capgains c) = 0" "totalTax c = 9049" "refund c = - 49"
    by (rule calculate_example1)
  show ?thesis
    by (simp add: c f for_brackets_64250)
qed

text \<open>
  The claim fails at its own inputs: the ordinary tax on 64250 is 9049, which is 34.50
  away from 9014.50.
\<close>

theorem calculate_example1_counterexample:
  "case calculate Number_of_number
          \<lparr>el_status = ''single'', el_gross = Num 80000, el_withheld = Num 9000, el_k401 = Num 0,
           el_otherDed = Num 0, el_stcg = Num 0, el_ltcg = Num 0\<rparr> of
     Inl e \<Rightarrow> False
   | Inr c \<Rightarrow>
       taxableOrdinary c = 64250 \<and> tax (ordinary c) = 9049 \<and>
       \<bar>tax (ordinary c) - 9014.50\<bar> = 34.50"
proof -
  obtain c where c: "calculate Number_of_number
          \<lparr>el_status = ''single'', el_gross = Num 80000, el_withheld = Num 9000, el_k401 = Num 0,
           el_otherDed = Num 0, el_stcg = Num 0, el_ltcg = Num 0\<rparr> = Inr c"
    and f: "taxableOrdinary c = 64250"
    "ordinary c = for_brackets 64250 single_brackets [] 0"
    by (rule calculate_example1)
  show ?thesis
    by (simp add: c f for_brackets_64250)
qed

end
